theory Spec2Isabelle
  imports Main
begin

section \<open>JavaScript strings\<close>

text \<open>
  A JavaScript string is a finite sequence of UTF-16 code units. The model keeps the
  code unit values as natural numbers, so that \<^verbatim>\<open>slice\<close>, \<^verbatim>\<open>startsWith\<close>,
  \<^verbatim>\<open>trim\<close>, \<^verbatim>\<open>includes\<close> and the regular expressions of the source count and
  compare what the source counts and compares. \<open>js\<close> turns an ASCII literal into its
  code units.
\<close>

type_synonym jsstring = "nat list"

definition js :: "string \<Rightarrow> jsstring" where
  "js s = map of_char s"

text \<open>\<^verbatim>\<open>s.startsWith(p)\<close>\<close>

definition startsWith :: "jsstring \<Rightarrow> jsstring \<Rightarrow> bool" where
  "startsWith s p = (take (length p) s = p)"

text \<open>\<^verbatim>\<open>s.includes(p)\<close>: \<open>p\<close> occurs at some position of \<open>s\<close>.\<close>

fun js_includes :: "jsstring \<Rightarrow> jsstring \<Rightarrow> bool" where
  "js_includes [] p = (p = [])"
| "js_includes (c # cs) p = (startsWith (c # cs) p \<or> js_includes cs p)"

text \<open>
  The code units that \<^verbatim>\<open>trim\<close> strips and that \<^verbatim>\<open>\s\<close> matches: ECMAScript's
  WhiteSpace and LineTerminator.
\<close>

definition is_space :: "nat \<Rightarrow> bool" where
  "is_space c = (c = 0x09 \<or> c = 0x0A \<or> c = 0x0B \<or> c = 0x0C \<or> c = 0x0D \<or> c = 0x20
     \<or> c = 0xA0 \<or> c = 0x1680 \<or> (0x2000 \<le> c \<and> c \<le> 0x200A) \<or> c = 0x2028 \<or> c = 0x2029
     \<or> c = 0x202F \<or> c = 0x205F \<or> c = 0x3000 \<or> c = 0xFEFF)"

definition trim :: "jsstring \<Rightarrow> jsstring" where
  "trim s = rev (dropWhile is_space (rev (dropWhile is_space s)))"

text \<open>
  \<^verbatim>\<open>s.split(sep)\<close> for a one-character separator: the pieces between the
  separators, scanned from the left; there is always at least one piece, and a string
  that ends in the separator has an empty last piece.
\<close>

fun split_from :: "nat \<Rightarrow> jsstring \<Rightarrow> jsstring \<Rightarrow> jsstring list" where
  "split_from sep piece [] = [piece]"
| "split_from sep piece (c # cs) =
     (if c = sep then piece # split_from sep [] cs else split_from sep (piece @ [c]) cs)"

definition split_on :: "nat \<Rightarrow> jsstring \<Rightarrow> jsstring list" where
  "split_on sep s = split_from sep [] s"

text \<open>\<^verbatim>\<open>s.split('\n')\<close>\<close>

definition split_nl :: "jsstring \<Rightarrow> jsstring list" where
  "split_nl s = split_on 0x0A s"

text \<open>The decimal digits of a number, as a template literal prints it.\<close>

fun show_nat :: "nat \<Rightarrow> jsstring" where
  "show_nat n = (if n < 10 then [0x30 + n] else show_nat (n div 10) @ [0x30 + n mod 10])"

section \<open>Regular expressions\<close>

text \<open>
  The regular expressions of the source, as data, and a matcher that follows
  ECMAScript's backtracking order. \<open>Cls\<close> matches one code unit of a class,
  \<open>Star\<close> is the greedy \<^verbatim>\<open>*\<close> and \<open>StarLazy\<close> the lazy \<^verbatim>\<open>*?\<close>, \<open>Opt\<close> is
  \<^verbatim>\<open>?\<close>, \<open>Group n\<close> is the n-th capturing group. \<open>LineStart\<close> and \<open>LineEnd\<close> are
  \<^verbatim>\<open>^\<close> and \<^verbatim>\<open>$\<close> under the flag \<^verbatim>\<open>m\<close>, \<open>InputStart\<close> and \<open>InputEnd\<close> are
  \<^verbatim>\<open>^\<close> and \<^verbatim>\<open>$\<close> without it, \<open>WordBoundary\<close> is \<^verbatim>\<open>\b\<close>.
\<close>

datatype re =
    Eps
  | Cls "nat \<Rightarrow> bool"
  | Seq re re
  | Star re
  | StarLazy re
  | Opt re
  | Group nat re
  | LineStart
  | LineEnd
  | InputStart
  | InputEnd
  | WordBoundary

text \<open>
  A position of the matcher in the input: the text before it (nearest code unit
  first), the text from it on, and the groups captured so far.
\<close>

record mstate =
  behind :: jsstring
  ahead :: jsstring
  captures :: "(nat \<times> jsstring) list"

definition is_line_terminator :: "nat \<Rightarrow> bool" where
  "is_line_terminator c = (c = 0x0A \<or> c = 0x0D \<or> c = 0x2028 \<or> c = 0x2029)"

text \<open>\<^verbatim>\<open>\w\<close>, \<^verbatim>\<open>\d\<close>, \<^verbatim>\<open>[a-zA-Z]\<close>, \<^verbatim>\<open>[a-zA-Z0-9]\<close>, \<^verbatim>\<open>.\<close> and \<^verbatim>\<open>[\s\S]\<close>\<close>

definition is_alpha :: "nat \<Rightarrow> bool" where
  "is_alpha c = ((0x41 \<le> c \<and> c \<le> 0x5A) \<or> (0x61 \<le> c \<and> c \<le> 0x7A))"

definition is_digit :: "nat \<Rightarrow> bool" where
  "is_digit c = (0x30 \<le> c \<and> c \<le> 0x39)"

definition is_alnum :: "nat \<Rightarrow> bool" where
  "is_alnum c = (is_alpha c \<or> is_digit c)"

definition is_word :: "nat \<Rightarrow> bool" where
  "is_word c = (is_alnum c \<or> c = 0x5F)"

definition is_dot :: "nat \<Rightarrow> bool" where
  "is_dot c = (\<not> is_line_terminator c)"

definition is_any :: "nat \<Rightarrow> bool" where
  "is_any c = True"

text \<open>
  The ways of matching \<^verbatim>\<open>r*\<close> from a position, in the order in which backtracking
  tries them: one more round of \<open>r\<close> first when greedy, none first when lazy. A round
  that consumes nothing is rejected. Each round consumes a code unit, so the length of
  the remaining input bounds the number of rounds.
\<close>

primrec star_greedy :: "(mstate \<Rightarrow> mstate list) \<Rightarrow> nat \<Rightarrow> mstate \<Rightarrow> mstate list" where
  "star_greedy f 0 s = [s]"
| "star_greedy f (Suc n) s =
     concat (map (\<lambda>s'. if length (ahead s') < length (ahead s) then star_greedy f n s' else [])
       (f s)) @ [s]"

primrec star_lazy :: "(mstate \<Rightarrow> mstate list) \<Rightarrow> nat \<Rightarrow> mstate \<Rightarrow> mstate list" where
  "star_lazy f 0 s = [s]"
| "star_lazy f (Suc n) s =
     s # concat (map (\<lambda>s'. if length (ahead s') < length (ahead s) then star_lazy f n s' else [])
       (f s))"

text \<open>
  All the ways of matching \<open>r\<close> from a position, in backtracking order: the head of the
  list is the match that \<^verbatim>\<open>exec\<close> finds at this position.
\<close>

primrec rmatch :: "re \<Rightarrow> mstate \<Rightarrow> mstate list" where
  "rmatch Eps s = [s]"
| "rmatch (Cls P) s =
     (case ahead s of
        [] \<Rightarrow> []
      | c # cs \<Rightarrow> if P c then [s\<lparr>behind := c # behind s, ahead := cs\<rparr>] else [])"
| "rmatch (Seq r1 r2) s = concat (map (rmatch r2) (rmatch r1 s))"
| "rmatch (Star r) s = star_greedy (rmatch r) (length (ahead s)) s"
| "rmatch (StarLazy r) s = star_lazy (rmatch r) (length (ahead s)) s"
| "rmatch (Opt r) s = rmatch r s @ [s]"
| "rmatch (Group n r) s =
     map (\<lambda>s'. s'\<lparr>captures := (n, take (length (ahead s) - length (ahead s')) (ahead s)) # captures s'\<rparr>)
       (rmatch r s)"
| "rmatch LineStart s =
     (case behind s of [] \<Rightarrow> [s] | c # cs \<Rightarrow> if is_line_terminator c then [s] else [])"
| "rmatch LineEnd s =
     (case ahead s of [] \<Rightarrow> [s] | c # cs \<Rightarrow> if is_line_terminator c then [s] else [])"
| "rmatch InputStart s = (case behind s of [] \<Rightarrow> [s] | c # cs \<Rightarrow> [])"
| "rmatch InputEnd s = (case ahead s of [] \<Rightarrow> [s] | c # cs \<Rightarrow> [])"
| "rmatch WordBoundary s =
     (if (case behind s of [] \<Rightarrow> False | c # cs \<Rightarrow> is_word c)
         \<noteq> (case ahead s of [] \<Rightarrow> False | c # cs \<Rightarrow> is_word c) then [s] else [])"

text \<open>\<^verbatim>\<open>r+\<close>, \<^verbatim>\<open>r+?\<close>, a sequence of parts, a literal, and a literal under the flag \<^verbatim>\<open>i\<close>\<close>

definition Plus :: "re \<Rightarrow> re" where
  "Plus r = Seq r (Star r)"

definition PlusLazy :: "re \<Rightarrow> re" where
  "PlusLazy r = Seq r (StarLazy r)"

primrec seq :: "re list \<Rightarrow> re" where
  "seq [] = Eps"
| "seq (r # rs) = Seq r (seq rs)"

definition lit :: "jsstring \<Rightarrow> re" where
  "lit s = seq (map (\<lambda>c. Cls ((=) c)) s)"

definition to_lower :: "nat \<Rightarrow> nat" where
  "to_lower c = (if 0x41 \<le> c \<and> c \<le> 0x5A then c + 0x20 else c)"

definition lit_i :: "jsstring \<Rightarrow> re" where
  "lit_i s = seq (map (\<lambda>c. Cls (\<lambda>x. to_lower x = to_lower c)) s)"

text \<open>What a replacement callback receives: the matched text and the groups.\<close>

record rmatched =
  matched :: jsstring
  group :: "nat \<Rightarrow> jsstring"

text \<open>
  One attempt at one position: the input after the match, and the match. The second
  argument is the text before the position, nearest code unit first.
\<close>

definition exec_at :: "re \<Rightarrow> jsstring \<Rightarrow> jsstring \<Rightarrow> (jsstring \<times> rmatched) option" where
  "exec_at r bef s =
     (case rmatch r \<lparr>behind = bef, ahead = s, captures = []\<rparr> of
        [] \<Rightarrow> None
      | m # ms \<Rightarrow> Some (ahead m,
          \<lparr>matched = take (length s - length (ahead m)) s,
           group = (\<lambda>n. case map_of (captures m) n of Some g \<Rightarrow> g | None \<Rightarrow> [])\<rparr>))"

text \<open>
  \<^verbatim>\<open>s.replace(r, f)\<close> for a regular expression with the flag \<^verbatim>\<open>g\<close>: the leftmost
  match from each position on, the search going on after the match (one code unit
  further when the match is empty).
\<close>

function replace_from :: "re \<Rightarrow> (rmatched \<Rightarrow> jsstring) \<Rightarrow> jsstring \<Rightarrow> jsstring \<Rightarrow> jsstring" where
  "replace_from r f bef s =
     (case exec_at r bef s of
        None \<Rightarrow> (case s of [] \<Rightarrow> [] | c # cs \<Rightarrow> c # replace_from r f (c # bef) cs)
      | Some (s', m) \<Rightarrow>
          f m @ (if length s' < length s then replace_from r f (rev (matched m) @ bef) s'
                 else (case s of [] \<Rightarrow> [] | c # cs \<Rightarrow> c # replace_from r f (c # bef) cs)))"
  by pat_completeness auto
termination
  by (relation "measure (\<lambda>(r, f, bef, s). length s)") auto

definition replace_all :: "re \<Rightarrow> (rmatched \<Rightarrow> jsstring) \<Rightarrow> jsstring \<Rightarrow> jsstring" where
  "replace_all r f s = replace_from r f [] s"

text \<open>\<^verbatim>\<open>s.replace(r, f)\<close> without the flag \<^verbatim>\<open>g\<close>: the first match only.\<close>

fun replace_first_from :: "re \<Rightarrow> (rmatched \<Rightarrow> jsstring) \<Rightarrow> jsstring \<Rightarrow> jsstring \<Rightarrow> jsstring" where
  "replace_first_from r f bef [] =
     (case exec_at r bef [] of None \<Rightarrow> [] | Some (s', m) \<Rightarrow> f m @ s')"
| "replace_first_from r f bef (c # cs) =
     (case exec_at r bef (c # cs) of
        None \<Rightarrow> c # replace_first_from r f (c # bef) cs
      | Some (s', m) \<Rightarrow> f m @ s')"

definition replace_first :: "re \<Rightarrow> (rmatched \<Rightarrow> jsstring) \<Rightarrow> jsstring \<Rightarrow> jsstring" where
  "replace_first r f s = replace_first_from r f [] s"

text \<open>\<^verbatim>\<open>r.test(s)\<close>: is there a match at some position.\<close>

fun test_from :: "re \<Rightarrow> jsstring \<Rightarrow> jsstring \<Rightarrow> bool" where
  "test_from r bef [] = (exec_at r bef [] \<noteq> None)"
| "test_from r bef (c # cs) = (exec_at r bef (c # cs) \<noteq> None \<or> test_from r (c # bef) cs)"

definition re_test :: "re \<Rightarrow> jsstring \<Rightarrow> bool" where
  "re_test r s = test_from r [] s"

section \<open>The streaming client (sse-client.ts)\<close>

text \<open>
  What \<^verbatim>\<open>SSEClient.stream\<close> does to the outside, in order: it opens the request, reads
  the response body, sleeps between attempts, and calls the four handlers. \<open>'j\<close> is the
  type of the values \<^verbatim>\<open>JSON.parse\<close> returns.
\<close>

datatype 'j effect =
    Fetch
  | Read
  | Sleep nat
  | OnMessage jsstring
  | OnChart 'j
  | OnDone
  | OnError jsstring

text \<open>
  \<^verbatim>\<open>handleEvent\<close>: a \<^verbatim>\<open>switch\<close> on the event name with four cases and no default.
  \<^verbatim>\<open>JSON.parse\<close> is the platform's; it is a parameter, \<open>None\<close> when it throws. The
  handlers are taken to return normally.
\<close>

definition handleEvent :: "(jsstring \<Rightarrow> 'j option) \<Rightarrow> jsstring \<Rightarrow> jsstring \<Rightarrow> 'j effect list" where
  "handleEvent JSON_parse event data =
     (if event = js ''message'' then [OnMessage data]
      else if event = js ''chart'' then
        (case JSON_parse data of Some chart \<Rightarrow> [OnChart chart] | None \<Rightarrow> [])
      else if event = js ''done'' then [OnDone]
      else if event = js ''error'' then [OnError data]
      else [])"

text \<open>
  The \<^verbatim>\<open>for (const line of lines)\<close> loop of one read; the first argument is
  \<^verbatim>\<open>currentEvent\<close>.
\<close>

fun process_lines :: "(jsstring \<Rightarrow> 'j option) \<Rightarrow> jsstring \<Rightarrow> jsstring list \<Rightarrow> 'j effect list" where
  "process_lines JSON_parse currentEvent [] = []"
| "process_lines JSON_parse currentEvent (line # lines) =
     (if startsWith line (js ''event: '') then
        process_lines JSON_parse (trim (drop 7 line)) lines
      else if startsWith line (js ''data: '') then
        handleEvent JSON_parse currentEvent (drop 6 line)
          @ process_lines JSON_parse (js ''message'') lines
      else process_lines JSON_parse currentEvent lines)"

text \<open>
  What an awaited operation of the platform can do. A rejected \<^verbatim>\<open>fetch\<close> or
  \<^verbatim>\<open>read\<close> throws: an \<^verbatim>\<open>AbortError\<close> when \<^verbatim>\<open>abort()\<close> was called meanwhile,
  a \<^verbatim>\<open>TypeError\<close> for a transport failure. Reading a property of \<^verbatim>\<open>null\<close> throws a
  \<^verbatim>\<open>TypeError\<close> too.
\<close>

datatype thrown = AbortError | TypeError

datatype completion = Returns | Throws thrown

text \<open>How the body of a response ends, after its chunks.\<close>

datatype body_end = EndOfStream | ReadFails | ReadAborted

text \<open>
  The \<^verbatim>\<open>while (true)\<close> loop over \<^verbatim>\<open>reader.read()\<close>. The body is the list of the
  texts that the decoder yields for the successive reads, and the way it ends. Each
  iteration appends to \<^verbatim>\<open>buffer\<close>, splits, keeps the last piece as the new buffer and
  walks the other pieces, starting from \<^verbatim>\<open>currentEvent = 'message'\<close>, which is
  declared inside the loop body.
\<close>

fun read_loop :: "(jsstring \<Rightarrow> 'j option) \<Rightarrow> jsstring \<Rightarrow> jsstring list \<Rightarrow> body_end
    \<Rightarrow> 'j effect list \<times> completion" where
  "read_loop JSON_parse buffer [] e =
     ([Read], case e of EndOfStream \<Rightarrow> Returns | ReadFails \<Rightarrow> Throws TypeError
                     | ReadAborted \<Rightarrow> Throws AbortError)"
| "read_loop JSON_parse buffer (val # vals) e =
     (let lines = split_nl (buffer @ val);
          r = read_loop JSON_parse (last lines) vals e
      in (Read # process_lines JSON_parse (js ''message'') (butlast lines) @ fst r, snd r))"

text \<open>
  The outcome of one \<^verbatim>\<open>fetch\<close>: it rejects (transport failure, or \<^verbatim>\<open>abort()\<close>
  called while it is pending), or it resolves to a response with a status, the text of
  its body (\<open>None\<close> when \<^verbatim>\<open>response.text()\<close> rejects) and its body stream (\<open>None\<close>
  when \<^verbatim>\<open>response.body\<close> is null).
\<close>

datatype fetch_outcome =
    FetchFails
  | FetchAborted
  | Response nat "jsstring option" "(jsstring list \<times> body_end) option"

text \<open>
  The environment of one call of \<^verbatim>\<open>stream\<close>: what the \<^verbatim>\<open>fetch\<close> of each attempt
  does, and whether \<^verbatim>\<open>abort()\<close> is called during the wait that follows an attempt.
  A call of \<^verbatim>\<open>abort()\<close> while a \<^verbatim>\<open>fetch\<close> or a \<^verbatim>\<open>read\<close> is pending is the outcome
  \<open>FetchAborted\<close> or \<open>ReadAborted\<close> of that operation. A second call of \<^verbatim>\<open>stream\<close>
  on the same client while this one runs is not part of the environment.
\<close>

record env =
  fetch_outcome :: "nat \<Rightarrow> fetch_outcome"
  abort_in_wait :: "nat \<Rightarrow> bool"

definition maxRetries :: nat where
  "maxRetries = 3"

text \<open>
  The text of the last \<^verbatim>\<open>onError\<close> of \<^verbatim>\<open>stream\<close>, a Korean sentence
  (\<^verbatim>\<open>U+B124 U+D2B8 U+C6CC U+D06C\<close>, a space, ...), given by its code units.
\<close>

definition network_error_text :: jsstring where
  "network_error_text = [0xB124, 0xD2B8, 0xC6CC, 0xD06C, 0x0020, 0xC5F0, 0xACB0, 0xC744,
     0x0020, 0xD655, 0xC778, 0xD574, 0xC8FC, 0xC138, 0xC694, 0x002E]"

text \<open>
  The \<^verbatim>\<open>try\<close> block of one attempt. The last argument is the field
  \<^verbatim>\<open>this.abortController\<close>: \<open>None\<close> for \<^verbatim>\<open>null\<close>, otherwise the controller with
  its \<^verbatim>\<open>signal.aborted\<close>. \<^verbatim>\<open>response.ok\<close> is a status from 200 to 299.
\<close>

definition try_block :: "(jsstring \<Rightarrow> 'j option) \<Rightarrow> fetch_outcome \<Rightarrow> bool option
    \<Rightarrow> 'j effect list \<times> completion" where
  "try_block JSON_parse outcome abortController =
     (case abortController of
        None \<Rightarrow> ([], Throws TypeError)
      | Some aborted \<Rightarrow>
          if aborted then ([], Returns)
          else (case outcome of
              FetchFails \<Rightarrow> ([Fetch], Throws TypeError)
            | FetchAborted \<Rightarrow> ([Fetch], Throws AbortError)
            | Response status text body \<Rightarrow>
                if \<not> (200 \<le> status \<and> status \<le> 299) then
                  ([Fetch, OnError (js ''HTTP '' @ show_nat status @ js '': ''
                      @ (case text of Some detail \<Rightarrow> detail | None \<Rightarrow> []))], Returns)
                else (case body of
                    None \<Rightarrow> ([Fetch, OnError (js ''No response body'')], Returns)
                  | Some (chunks, e) \<Rightarrow>
                      (let r = read_loop JSON_parse [] chunks e in (Fetch # fst r, snd r)))))"

text \<open>
  The \<^verbatim>\<open>for (let attempt = 0; attempt <= maxRetries; attempt++)\<close> loop with its
  \<^verbatim>\<open>catch\<close>. \<^verbatim>\<open>abort()\<close> sets the field \<^verbatim>\<open>abortController\<close> to \<^verbatim>\<open>null\<close>.
\<close>

function stream_loop :: "(jsstring \<Rightarrow> 'j option) \<Rightarrow> env \<Rightarrow> nat \<Rightarrow> bool option \<Rightarrow> 'j effect list" where
  "stream_loop JSON_parse E attempt abortController =
     (if attempt \<le> maxRetries then
        (case try_block JSON_parse (fetch_outcome E attempt) abortController of
           (effs, Returns) \<Rightarrow> effs
         | (effs, Throws AbortError) \<Rightarrow> effs
         | (effs, Throws TypeError) \<Rightarrow>
             if attempt = maxRetries then effs @ [OnError network_error_text]
             else effs @ Sleep (2 ^ attempt * 1000)
               # stream_loop JSON_parse E (attempt + 1)
                   (if abort_in_wait E attempt then None else abortController))
      else [])"
  by pat_completeness auto
termination
  by (relation "measure (\<lambda>(p, e, attempt, c). Suc maxRetries - attempt)") auto

text \<open>\<^verbatim>\<open>stream\<close>: a fresh controller, then the loop from attempt 0.\<close>

definition stream :: "(jsstring \<Rightarrow> 'j option) \<Rightarrow> env \<Rightarrow> 'j effect list" where
  "stream JSON_parse E = stream_loop JSON_parse E 0 (Some False)"

section \<open>The chat view, as far as the controller drives it (chat-ui.ts)\<close>

datatype role = User | Assistant

text \<open>A \<^verbatim>\<open>Message\<close>, without its timestamp.\<close>

record message =
  msg_id :: jsstring
  role :: role
  content :: jsstring

text \<open>
  The state of \<^verbatim>\<open>ChatUI\<close> that the controller writes and reads back: whether the
  textarea and the send button are disabled, the message bubbles added with
  \<^verbatim>\<open>addMessage\<close>, the assistant elements that carry a \<^verbatim>\<open>data-raw\<close> attribute
  (the value of the attribute), and the error boxes shown (the text, and whether a
  retry button is on it). Scrolling, focus, the loading dots and what is inside the
  elements, markup and charts, are left out.
\<close>

record chat_ui =
  inputDisabled :: bool
  bubbles :: "message list"
  assistantEls :: "jsstring list"
  shownErrors :: "(jsstring \<times> bool) list"

definition setInputDisabled :: "bool \<Rightarrow> chat_ui \<Rightarrow> chat_ui" where
  "setInputDisabled disabled u = u\<lparr>inputDisabled := disabled\<rparr>"

definition addMessage :: "message \<Rightarrow> chat_ui \<Rightarrow> chat_ui" where
  "addMessage m u = u\<lparr>bubbles := bubbles u @ [m]\<rparr>"

definition startStreaming :: "chat_ui \<Rightarrow> chat_ui" where
  "startStreaming u = setInputDisabled True (u\<lparr>assistantEls := assistantEls u @ [[]]\<rparr>)"

definition endStreaming :: "chat_ui \<Rightarrow> chat_ui" where
  "endStreaming u = setInputDisabled False u"

definition appendToLastAssistant :: "jsstring \<Rightarrow> chat_ui \<Rightarrow> chat_ui" where
  "appendToLastAssistant chunk u =
     (case assistantEls u of
        [] \<Rightarrow> u
      | el # els \<Rightarrow>
          (let all = el # els; current = last all; updated = current @ chunk
           in u\<lparr>assistantEls := butlast all @ [updated]\<rparr>))"

text \<open>
  \<^verbatim>\<open>addChartToLastAssistant\<close> draws into the last of these elements, or throws while
  it does, which \<^verbatim>\<open>handleEvent\<close> catches; neither touches what is kept here.
\<close>

definition addChartToLastAssistant :: "'j \<Rightarrow> chat_ui \<Rightarrow> chat_ui" where
  "addChartToLastAssistant chart u = u"

text \<open>\<^verbatim>\<open>showError(message, retryCallback?)\<close>: the flag says whether a callback is passed.\<close>

definition showError :: "jsstring \<Rightarrow> bool \<Rightarrow> chat_ui \<Rightarrow> chat_ui" where
  "showError text retry u = u\<lparr>shownErrors := shownErrors u @ [(text, retry)]\<rparr>"

text \<open>
  \<^verbatim>\<open>ChatUI.handleSend\<close>, the only caller of the callback \<^verbatim>\<open>onSend\<close>: what it passes
  for a content of the textarea, if anything.
\<close>

definition ChatUI_handleSend :: "jsstring \<Rightarrow> jsstring option" where
  "ChatUI_handleSend input = (let text = trim input in if text = [] then None else Some text)"

section \<open>The controller (spo-chatbot.ts)\<close>

record config =
  apiUrl :: jsstring
  token :: jsstring
  theme :: jsstring
  contextType :: jsstring
  contextParams :: "(jsstring \<times> jsstring) list"
  lang :: jsstring

record chatbot =
  config :: config
  ui :: chat_ui
  sessionId :: "jsstring option"
  messages :: "message list"
  messageCounter :: nat
  error :: "jsstring option"
  lastFailedMessage :: "jsstring option"

text \<open>The bodies of the two requests.\<close>

record create_session_request =
  cs_context_type :: jsstring
  cs_context :: "(jsstring \<times> jsstring) list"

record chat_request =
  req_message :: jsstring
  req_context_type :: jsstring
  req_context :: "(jsstring \<times> jsstring) list option"

text \<open>The arguments of one call of \<^verbatim>\<open>this.sse.stream\<close>.\<close>

record stream_call =
  call_url :: jsstring
  call_body :: chat_request
  call_token :: jsstring

text \<open>
  The texts shown to the user, Korean sentences given by their code units; the
  connectivity text is the one of the streaming client.
\<close>

definition auth_expired_text :: jsstring where
  "auth_expired_text = [0xC778, 0xC99D, 0xC774, 0x0020, 0xB9CC, 0xB8CC, 0xB418, 0xC5C8,
     0xC2B5, 0xB2C8, 0xB2E4, 0x002E, 0x0020, 0xB2E4, 0xC2DC, 0x0020, 0xB85C, 0xADF8, 0xC778,
     0xD574, 0xC8FC, 0xC138, 0xC694, 0x002E]"

definition forbidden_text :: jsstring where
  "forbidden_text = [0xC811, 0xADFC, 0x0020, 0xAD8C, 0xD55C, 0xC774, 0x0020, 0xBD80, 0xC871,
     0xD569, 0xB2C8, 0xB2E4, 0x002E]"

definition server_error_text :: jsstring where
  "server_error_text = [0xC11C, 0xBC84, 0x0020, 0xC624, 0xB958, 0xC785, 0xB2C8, 0xB2E4,
     0x002E, 0x0020, 0xC7A0, 0xC2DC, 0x0020, 0xD6C4, 0x0020, 0xB2E4, 0xC2DC, 0x0020, 0xC2DC,
     0xB3C4, 0xD574, 0xC8FC, 0xC138, 0xC694, 0x002E]"

definition session_expired_text :: jsstring where
  "session_expired_text = [0xC138, 0xC158, 0xC774, 0x0020, 0xB9CC, 0xB8CC, 0xB418, 0xC5C8,
     0xC2B5, 0xB2C8, 0xB2E4, 0x002E, 0x0020, 0xCD08, 0xAE30, 0xD654, 0x0020, 0xBC84, 0xD2BC,
     0xC744, 0x0020, 0xB20C, 0xB7EC, 0xC8FC, 0xC138, 0xC694, 0x002E]"

definition stream_error_text :: jsstring where
  "stream_error_text = [0xC751, 0xB2F5, 0x0020, 0xC911, 0x0020, 0xC624, 0xB958, 0xAC00,
     0x0020, 0xBC1C, 0xC0DD, 0xD588, 0xC2B5, 0xB2C8, 0xB2E4, 0x002E]"

text \<open>
  What \<^verbatim>\<open>api.createSession\<close> can do: resolve to a session, reject with an
  \<^verbatim>\<open>ApiError\<close> (a status that is not 2xx, with the body text), or reject with
  something else (no connection, a body that is not JSON).
\<close>

datatype api_failure = ApiError nat jsstring | OtherFailure

datatype create_session_outcome = Created jsstring | Rejected api_failure

text \<open>
  \<^verbatim>\<open>initSession\<close> and \<^verbatim>\<open>handleApiError\<close>, which call each other. The first argument
  lists what the \<^verbatim>\<open>createSession\<close> calls to come do, in order; a call beyond the list
  stays pending. The result is the new state and the requests sent.
\<close>

function initSession :: "create_session_outcome list \<Rightarrow> chatbot
      \<Rightarrow> chatbot \<times> create_session_request list"
  and handleApiError :: "api_failure \<Rightarrow> create_session_outcome list \<Rightarrow> chatbot
      \<Rightarrow> chatbot \<times> create_session_request list" where
  "initSession outcomes s =
     (let request = \<lparr>cs_context_type = contextType (config s),
                     cs_context = contextParams (config s)\<rparr>
      in case outcomes of
           [] \<Rightarrow> (s, [request])
         | Created session_id # later \<Rightarrow> (s\<lparr>sessionId := Some session_id\<rparr>, [request])
         | Rejected err # later \<Rightarrow>
             (let r = handleApiError err later s in (fst r, request # snd r)))"
| "handleApiError err later s =
     (case err of
        ApiError status detail \<Rightarrow>
          if status = 401 then
            (s\<lparr>error := Some auth_expired_text,
               ui := setInputDisabled True (showError auth_expired_text False (ui s))\<rparr>, [])
          else if status = 403 then
            (s\<lparr>error := Some forbidden_text,
               ui := setInputDisabled True (showError forbidden_text False (ui s))\<rparr>, [])
          else if status = 410 then initSession later s
          else
            (s\<lparr>error := Some server_error_text,
               ui := showError server_error_text True (ui s)\<rparr>, [])
      | OtherFailure \<Rightarrow>
          (s\<lparr>error := Some network_error_text,
             ui := showError network_error_text True (ui s)\<rparr>, []))"
  by pat_completeness auto
termination
  by (relation "measure (\<lambda>x. case x of Inl (outcomes, s) \<Rightarrow> 2 * length outcomes
                                      | Inr (err, later, s) \<Rightarrow> 2 * length later + 1)") auto

definition handleStreamError :: "jsstring \<Rightarrow> chatbot \<Rightarrow> chatbot" where
  "handleStreamError err s =
     (if js_includes err (js ''401'') then
        s\<lparr>error := Some auth_expired_text,
          ui := setInputDisabled True (showError auth_expired_text False (ui s))\<rparr>
      else if js_includes err (js ''410'') then
        s\<lparr>error := Some session_expired_text,
          ui := showError session_expired_text False (ui s)\<rparr>
      else
        s\<lparr>error := Some stream_error_text,
          ui := showError stream_error_text True (ui s)\<rparr>)"

definition buildChatRequest :: "config \<Rightarrow> jsstring \<Rightarrow> chat_request" where
  "buildChatRequest cfg message =
     \<lparr>req_message = message, req_context_type = contextType cfg,
      req_context = (if length (contextParams cfg) > 0 then Some (contextParams cfg) else None)\<rparr>"

text \<open>\<^verbatim>\<open>/\/$/\<close>: a slash at the end of the input\<close>

definition trailing_slash_re :: re where
  "trailing_slash_re = seq [lit (js ''/''), InputEnd]"

text \<open>
  \<^verbatim>\<open>handleSend\<close> up to its \<^verbatim>\<open>await\<close>: the new state and the call of
  \<^verbatim>\<open>this.sse.stream\<close>. The address is \<^verbatim>\<open>apiUrl.replace(/\/$/, '')\<close> followed by the
  path.
\<close>

definition handleSend_submit :: "jsstring \<Rightarrow> chatbot \<Rightarrow> chatbot \<times> stream_call" where
  "handleSend_submit text s0 =
     (let s = s0\<lparr>error := None, lastFailedMessage := None\<rparr>;
          s = s\<lparr>messageCounter := messageCounter s + 1\<rparr>;
          userMsg = \<lparr>msg_id = js ''msg-'' @ show_nat (messageCounter s), role = User,
                     content = text\<rparr>;
          s = s\<lparr>messages := messages s @ [userMsg]\<rparr>;
          s = s\<lparr>ui := startStreaming (addMessage userMsg (ui s))\<rparr>;
          request = buildChatRequest (config s) text;
          url = replace_first trailing_slash_re (\<lambda>m. []) (apiUrl (config s))
                  @ js ''/api/chat/stream''
      in (s, \<lparr>call_url = url, call_body = request, call_token = token (config s)\<rparr>))"

text \<open>The four handlers that \<^verbatim>\<open>handleSend\<close> passes; \<open>text\<close> is its argument.\<close>

definition onMessage :: "jsstring \<Rightarrow> chatbot \<Rightarrow> chatbot" where
  "onMessage chunk s = s\<lparr>ui := appendToLastAssistant chunk (ui s)\<rparr>"

definition onChart :: "'j \<Rightarrow> chatbot \<Rightarrow> chatbot" where
  "onChart chart s = s\<lparr>ui := addChartToLastAssistant chart (ui s)\<rparr>"

definition onDone :: "chatbot \<Rightarrow> chatbot" where
  "onDone s0 =
     (let s = s0\<lparr>ui := endStreaming (ui s0), lastFailedMessage := None\<rparr>;
          raw = (case assistantEls (ui s) of [] \<Rightarrow> [] | el # els \<Rightarrow> last (el # els));
          s = s\<lparr>messageCounter := messageCounter s + 1\<rparr>;
          assistantMsg = \<lparr>msg_id = js ''msg-'' @ show_nat (messageCounter s), role = Assistant,
                          content = raw\<rparr>
      in s\<lparr>messages := messages s @ [assistantMsg]\<rparr>)"

definition onError :: "jsstring \<Rightarrow> jsstring \<Rightarrow> chatbot \<Rightarrow> chatbot" where
  "onError text err s =
     handleStreamError err (s\<lparr>ui := endStreaming (ui s), lastFailedMessage := Some text\<rparr>)"

text \<open>One effect of the streaming client, as the controller sees it.\<close>

fun deliver :: "jsstring \<Rightarrow> chatbot \<Rightarrow> 'j effect \<Rightarrow> chatbot" where
  "deliver text s (OnMessage chunk) = onMessage chunk s"
| "deliver text s (OnChart chart) = onChart chart s"
| "deliver text s OnDone = onDone s"
| "deliver text s (OnError err) = onError text err s"
| "deliver text s Fetch = s"
| "deliver text s Read = s"
| "deliver text s (Sleep ms) = s"

text \<open>
  \<^verbatim>\<open>handleSend\<close> to its end: the submission, then the handlers as the streaming client
  calls them in the given environment.
\<close>

definition handleSend :: "(jsstring \<Rightarrow> 'j option) \<Rightarrow> env \<Rightarrow> jsstring \<Rightarrow> chatbot \<Rightarrow> chatbot" where
  "handleSend JSON_parse E text s =
     foldl (deliver text) (fst (handleSend_submit text s)) (stream JSON_parse E)"

text \<open>
  \<^verbatim>\<open>handleRetry\<close>, up to the \<^verbatim>\<open>await\<close> of the \<^verbatim>\<open>handleSend\<close> it starts. An empty
  string is falsy.
\<close>

definition handleRetry :: "chatbot \<Rightarrow> chatbot \<times> stream_call option" where
  "handleRetry s =
     (case lastFailedMessage s of
        None \<Rightarrow> (s, None)
      | Some message \<Rightarrow>
          if message = [] then (s, None)
          else (let r = handleSend_submit message (s\<lparr>error := None, lastFailedMessage := None\<rparr>)
                in (fst r, Some (snd r))))"

text \<open>The controller as its field initialisers and \<^verbatim>\<open>ChatUI.render\<close> leave it.\<close>

definition new_chatbot :: "config \<Rightarrow> chatbot" where
  "new_chatbot cfg =
     \<lparr>config = cfg,
      ui = \<lparr>inputDisabled = False, bubbles = [], assistantEls = [], shownErrors = []\<rparr>,
      sessionId = None, messages = [], messageCounter = 0, error = None,
      lastFailedMessage = None\<rparr>"

section \<open>The markdown renderer (markdown-renderer.ts)\<close>

definition ALLOWED_TAGS :: "jsstring list" where
  "ALLOWED_TAGS = map js [''h1'', ''h2'', ''h3'', ''h4'', ''p'', ''strong'', ''em'',
     ''ul'', ''ol'', ''li'', ''table'', ''thead'', ''tbody'',
     ''tr'', ''th'', ''td'', ''pre'', ''code'', ''br'']"

text \<open>\<^verbatim>\<open>escapeHtml\<close>: four replacements in a row, the ampersand first.\<close>

definition escapeHtml :: "jsstring \<Rightarrow> jsstring" where
  "escapeHtml text =
     replace_all (lit [0x22]) (\<lambda>m. js ''&quot;'')
       (replace_all (lit (js ''>'')) (\<lambda>m. js ''&gt;'')
         (replace_all (lit (js ''<'')) (\<lambda>m. js ''&lt;'')
           (replace_all (lit (js ''&'')) (\<lambda>m. js ''&amp;'') text)))"

text \<open>
  The regular expressions of \<^verbatim>\<open>parse\<close>. A code block is three backquotes, \<^verbatim>\<open>(\w*)\<close>,
  a line feed, \<^verbatim>\<open>([\s\S]*?)\<close>, three backquotes; inline code is a backquote, one or
  more code units that are not a backquote, a backquote.
\<close>

definition code_block_re :: re where
  "code_block_re = seq [lit [0x60, 0x60, 0x60], Group 1 (Star (Cls is_word)), lit [0x0A],
     Group 2 (StarLazy (Cls is_any)), lit [0x60, 0x60, 0x60]]"

definition inline_code_re :: re where
  "inline_code_re = seq [lit [0x60], Group 1 (Plus (Cls (\<lambda>c. c \<noteq> 0x60))), lit [0x60]]"

text \<open>\<^verbatim>\<open>/^#### (.+)$/gm\<close> and the like, for a given run of number signs\<close>

definition header_re :: "string \<Rightarrow> re" where
  "header_re marks = seq [LineStart, lit (js marks), lit (js '' ''), Group 1 (Plus (Cls is_dot)),
     LineEnd]"

text \<open>\<^verbatim>\<open>/\*\*(.+?)\*\*/g\<close> and \<^verbatim>\<open>/\*(.+?)\*/g\<close>\<close>

definition bold_re :: re where
  "bold_re = seq [lit (js ''**''), Group 1 (PlusLazy (Cls is_dot)), lit (js ''**'')]"

definition italic_re :: re where
  "italic_re = seq [lit (js ''*''), Group 1 (PlusLazy (Cls is_dot)), lit (js ''*'')]"

text \<open>\<^verbatim>\<open>/(?:^\|.+\|$\n?)+/gm\<close> and the separator row \<^verbatim>\<open>/^\|[\s\-:|]+\|$/\<close>\<close>

definition tableRegex :: re where
  "tableRegex = Plus (seq [LineStart, lit (js ''|''), Plus (Cls is_dot), lit (js ''|''), LineEnd,
     Opt (lit [0x0A])])"

definition separator_re :: re where
  "separator_re = seq [InputStart, lit (js ''|''),
     Plus (Cls (\<lambda>c. is_space c \<or> c = 0x2D \<or> c = 0x3A \<or> c = 0x7C)), lit (js ''|''), InputEnd]"

text \<open>
  \<^verbatim>\<open>/((?:^- .+$\n?)+)/gm\<close> and \<^verbatim>\<open>/((?:^\d+\. .+$\n?)+)/gm\<close>, and the markers
  \<^verbatim>\<open>/^- /\<close> and \<^verbatim>\<open>/^\d+\. /\<close> that are taken off each line
\<close>

definition ul_re :: re where
  "ul_re = Group 1 (Plus (seq [LineStart, lit (js ''- ''), Plus (Cls is_dot), LineEnd,
     Opt (lit [0x0A])]))"

definition ol_re :: re where
  "ol_re = Group 1 (Plus (seq [LineStart, Plus (Cls is_digit), lit (js ''. ''), Plus (Cls is_dot),
     LineEnd, Opt (lit [0x0A])]))"

definition ul_marker_re :: re where
  "ul_marker_re = seq [InputStart, lit (js ''- '')]"

definition ol_marker_re :: re where
  "ol_marker_re = seq [InputStart, Plus (Cls is_digit), lit (js ''. '')]"

text \<open>\<^verbatim>\<open>/\n{2,}/g\<close> and \<^verbatim>\<open>/\n/g\<close>\<close>

definition blank_lines_re :: re where
  "blank_lines_re = seq [lit [0x0A], lit [0x0A], Star (lit [0x0A])]"

definition newline_re :: re where
  "newline_re = lit [0x0A]"

text \<open>\<^verbatim>\<open>findIndex\<close>: the index of the first element that satisfies the test, if any.\<close>

fun findIndex :: "('a \<Rightarrow> bool) \<Rightarrow> 'a list \<Rightarrow> nat option" where
  "findIndex P [] = None"
| "findIndex P (x # xs) = (if P x then Some 0 else map_option Suc (findIndex P xs))"

text \<open>\<^verbatim>\<open>parseRow\<close>, the local function of \<^verbatim>\<open>parseTables\<close>\<close>

definition parseRow :: "jsstring \<Rightarrow> string \<Rightarrow> jsstring" where
  "parseRow row tag =
     (let cells = butlast (tl (split_on 0x7C row));
          cellsHtml = concat (map (\<lambda>c. js ''<'' @ js tag @ js ''>'' @ trim c
                                        @ js ''</'' @ js tag @ js ''>'') cells)
      in js ''<tr>'' @ cellsHtml @ js ''</tr>'')"

definition parseTables :: "jsstring \<Rightarrow> jsstring" where
  "parseTables html =
     replace_all tableRegex (\<lambda>m.
       (let block = matched m;
            rows = filter (\<lambda>r. trim r \<noteq> []) (split_nl (trim block))
        in if length rows < 2 then block
           else (case findIndex (re_test separator_re) rows of
               None \<Rightarrow> block
             | Some separatorIdx \<Rightarrow>
                 (let headerRows = take separatorIdx rows;
                      bodyRows = drop (separatorIdx + 1) rows;
                      thead = concat (map (\<lambda>r. parseRow r ''th'') headerRows);
                      tbody = concat (map (\<lambda>r. parseRow r ''td'') bodyRows)
                  in js ''<table><thead>'' @ thead @ js ''</thead><tbody>'' @ tbody
                       @ js ''</tbody></table>'')))) html"

definition parseLists :: "jsstring \<Rightarrow> jsstring" where
  "parseLists html0 =
     (let html = replace_all ul_re (\<lambda>m.
            (let items = concat (map (\<lambda>line. js ''<li>''
                    @ replace_first ul_marker_re (\<lambda>m. []) line @ js ''</li>'')
                  (split_nl (trim (matched m))))
             in js ''<ul>'' @ items @ js ''</ul>'')) html0;
          html = replace_all ol_re (\<lambda>m.
            (let items = concat (map (\<lambda>line. js ''<li>''
                    @ replace_first ol_marker_re (\<lambda>m. []) line @ js ''</li>'')
                  (split_nl (trim (matched m))))
             in js ''<ol>'' @ items @ js ''</ol>'')) html
      in html)"

text \<open>
  \<^verbatim>\<open>parse\<close>: the passes in the order of the source. A replacement pattern
  \<^verbatim>\<open>'<h4>$1</h4>'\<close> puts the first group between the tags.
\<close>

definition parse :: "jsstring \<Rightarrow> jsstring" where
  "parse md =
     (let html = md;
          html = replace_all code_block_re
            (\<lambda>m. js ''<pre><code>'' @ escapeHtml (trim (group m 2)) @ js ''</code></pre>'') html;
          html = replace_all inline_code_re
            (\<lambda>m. js ''<code>'' @ escapeHtml (group m 1) @ js ''</code>'') html;
          html = replace_all (header_re ''####'') (\<lambda>m. js ''<h4>'' @ group m 1 @ js ''</h4>'') html;
          html = replace_all (header_re ''###'') (\<lambda>m. js ''<h3>'' @ group m 1 @ js ''</h3>'') html;
          html = replace_all (header_re ''##'') (\<lambda>m. js ''<h2>'' @ group m 1 @ js ''</h2>'') html;
          html = replace_all (header_re ''#'') (\<lambda>m. js ''<h1>'' @ group m 1 @ js ''</h1>'') html;
          html = replace_all bold_re (\<lambda>m. js ''<strong>'' @ group m 1 @ js ''</strong>'') html;
          html = replace_all italic_re (\<lambda>m. js ''<em>'' @ group m 1 @ js ''</em>'') html;
          html = parseTables html;
          html = parseLists html;
          html = replace_all blank_lines_re (\<lambda>m. js ''</p><p>'') html;
          html = replace_all newline_re (\<lambda>m. js ''<br>'') html;
          html = (if \<not> startsWith html (js ''<'') then js ''<p>'' @ html @ js ''</p>'' else html)
      in html)"

text \<open>
  The regular expressions of \<^verbatim>\<open>sanitize\<close>, all with the flags \<^verbatim>\<open>gi\<close>:
  \<^verbatim>\<open><\/?([a-zA-Z][a-zA-Z0-9]*)\b[^>]*>\<close>, then
  \<^verbatim>\<open>\son\w+\s*=\s*["'][^"']*["']\<close>, then \<^verbatim>\<open>javascript\s*:\<close>. Without the flag
  \<^verbatim>\<open>u\<close>, ignoring case makes a letter of the pattern match its two ASCII cases and
  leaves the classes as they are.
\<close>

definition tag_re :: re where
  "tag_re = seq [lit (js ''<''), Opt (lit (js ''/'')),
     Group 1 (Seq (Cls is_alpha) (Star (Cls is_alnum))), WordBoundary,
     Star (Cls (\<lambda>c. c \<noteq> 0x3E)), lit (js ''>'')]"

definition is_quote :: "nat \<Rightarrow> bool" where
  "is_quote c = (c = 0x22 \<or> c = 0x27)"

definition on_attr_re :: re where
  "on_attr_re = seq [Cls is_space, lit_i (js ''on''), Plus (Cls is_word), Star (Cls is_space),
     lit (js ''=''), Star (Cls is_space), Cls is_quote, Star (Cls (\<lambda>c. \<not> is_quote c)),
     Cls is_quote]"

definition javascript_re :: re where
  "javascript_re = seq [lit_i (js ''javascript''), Star (Cls is_space), lit (js '':'')]"

definition sanitize :: "jsstring \<Rightarrow> jsstring" where
  "sanitize html0 =
     (let html = replace_all tag_re
            (\<lambda>m. if map to_lower (group m 1) \<in> set ALLOWED_TAGS then matched m else []) html0;
          html = replace_all on_attr_re (\<lambda>m. []) html;
          html = replace_all javascript_re (\<lambda>m. []) html
      in html)"

definition render :: "jsstring \<Rightarrow> jsstring" where
  "render markdown = (if markdown = [] then [] else sanitize (parse markdown))"

section \<open>Auxiliary notions for the statements\<close>

text \<open>The constant function, for environments that do the same at every attempt.\<close>

definition always :: "'b \<Rightarrow> 'a \<Rightarrow> 'b" where
  "always x i = x"

text \<open>What a trace holds after its first \<open>OnDone\<close> or \<open>OnError\<close>.\<close>

fun after_terminal :: "'j effect list \<Rightarrow> 'j effect list" where
  "after_terminal [] = []"
| "after_terminal (OnDone # es) = es"
| "after_terminal (OnError d # es) = es"
| "after_terminal (e # es) = after_terminal es"

text \<open>
  The complete lines that the reads of a body hand to the line loop, read after read,
  from a given buffer.
\<close>

fun lines_of_reads :: "jsstring \<Rightarrow> jsstring list \<Rightarrow> jsstring list" where
  "lines_of_reads buffer [] = []"
| "lines_of_reads buffer (val # vals) =
     butlast (split_nl (buffer @ val)) @ lines_of_reads (last (split_nl (buffer @ val))) vals"

text \<open>
  The buffer that the reads of some chunks leave, and what the client does during
  these reads, from a given buffer.
\<close>

fun buffer_after :: "jsstring \<Rightarrow> jsstring list \<Rightarrow> jsstring" where
  "buffer_after buffer [] = buffer"
| "buffer_after buffer (val # vals) = buffer_after (last (split_nl (buffer @ val))) vals"

fun effects_of_reads :: "(jsstring \<Rightarrow> 'j option) \<Rightarrow> jsstring \<Rightarrow> jsstring list \<Rightarrow> 'j effect list" where
  "effects_of_reads JSON_parse buffer [] = []"
| "effects_of_reads JSON_parse buffer (val # vals) =
     Read # process_lines JSON_parse (js ''message'') (butlast (split_nl (buffer @ val)))
       @ effects_of_reads JSON_parse (last (split_nl (buffer @ val))) vals"

text \<open>
  The configuration that the field initialiser of the class gives, and one with an
  address, as \<^verbatim>\<open>connectedCallback\<close> requires.
\<close>

definition default_config :: config where
  "default_config = \<lparr>apiUrl = [], token = [], theme = js ''default'',
     contextType = js ''badminton'', contextParams = [], lang = js ''ko''\<rparr>"

definition example_config :: config where
  "example_config = default_config\<lparr>apiUrl := js ''https://chat.example/''\<rparr>"

declare stream_loop.simps [simp del]
declare replace_from.simps [simp del]
declare initSession.simps [simp del]
declare handleApiError.simps [simp del]

section \<open>Properties of the streaming client\<close>

subsection \<open>Lines of the protocol\<close>

lemma startsWith_same_prefix: "startsWith (p @ s) p"
  by (simp add: startsWith_def)

lemma data_line_is_no_event_line: "\<not> startsWith (js ''data: '' @ d) (js ''event: '')"
  by (simp add: startsWith_def js_def)

lemma drop_event_marker: "drop 7 (js ''event: '' @ name) = name"
  by (simp add: js_def)

lemma drop_data_marker: "drop 6 (js ''data: '' @ d) = d"
  by (simp add: js_def)

lemma process_event_then_data:
  "process_lines JSON_parse currentEvent ((js ''event: '' @ name) # (js ''data: '' @ d) # lines)
     = handleEvent JSON_parse (trim name) d @ process_lines JSON_parse (js ''message'') lines"
  by (simp only: process_lines.simps startsWith_same_prefix data_line_is_no_event_line
      drop_event_marker drop_data_marker if_True if_False)

lemma handleEvent_never_reads: "filter ((=) Read) (handleEvent JSON_parse event d) = []"
  by (simp add: handleEvent_def split: option.split)

lemma process_lines_never_reads:
  "filter ((=) Read) (process_lines JSON_parse currentEvent lines) = []"
  by (induction lines arbitrary: currentEvent) (simp_all add: handleEvent_never_reads)

lemma read_loop_reads_every_chunk:
  "length (filter ((=) Read) (fst (read_loop JSON_parse buffer chunks e))) = Suc (length chunks)"
  by (induction chunks arbitrary: buffer) (simp_all add: Let_def process_lines_never_reads)

lemmas sse_eval = stream_def stream_loop.simps maxRetries_def try_block_def js_def startsWith_def
  handleEvent_def trim_def is_space_def always_def split_nl_def split_on_def

lemma process_data_line:
  "process_lines JSON_parse currentEvent ((js ''data: '' @ d) # lines)
     = handleEvent JSON_parse currentEvent d @ process_lines JSON_parse (js ''message'') lines"
  by (simp only: process_lines.simps startsWith_same_prefix data_line_is_no_event_line
      drop_data_marker if_True if_False)

text \<open>
  Claim C9. A frame whose event name is none of \<^verbatim>\<open>message\<close>, \<^verbatim>\<open>chart\<close>,
  \<^verbatim>\<open>done\<close>, \<^verbatim>\<open>error\<close> calls no handler, and the lines after it are handled as
  they are at the start of a read, with the event name back to \<^verbatim>\<open>message\<close>. The
  event name of a frame is the trimmed rest of its \<^verbatim>\<open>event:\<close> line.
\<close>

theorem unknown_event_ignored:
  assumes "event \<notin> {js ''message'', js ''chart'', js ''done'', js ''error''}"
    and "trim name = event"
  shows "handleEvent JSON_parse event d = []
    \<and> process_lines JSON_parse event ((js ''data: '' @ d) # lines)
        = process_lines JSON_parse (js ''message'') lines
    \<and> process_lines JSON_parse currentEvent
          ((js ''event: '' @ name) # (js ''data: '' @ d) # lines)
        = process_lines JSON_parse (js ''message'') lines"
proof -
  have ignored: "handleEvent JSON_parse event d = []"
    using assms(1) by (simp add: handleEvent_def)
  show ?thesis
    unfolding process_event_then_data process_data_line assms(2) ignored by simp
qed

text \<open>
  Claim C9, witness: the event name \<^verbatim>\<open>ping\<close> is ignored and the data line after the
  frame is dispatched as a message.
\<close>

theorem unknown_event_ignored_witness:
  "js ''ping'' \<notin> {js ''message'', js ''chart'', js ''done'', js ''error''}
   \<and> trim (js ''ping '') = js ''ping''
   \<and> handleEvent (always (None :: unit option)) (js ''ping'') (js ''1'') = []
   \<and> process_lines (always (None :: unit option)) (js ''message'')
         [js ''event: '' @ js ''ping '', js ''data: '' @ js ''1'', js ''data: hello'']
       = [OnMessage (js ''hello'')]"
proof -
  have h: "js ''ping'' \<notin> {js ''message'', js ''chart'', js ''done'', js ''error''}"
    by (simp add: js_def)
  have t: "trim (js ''ping '') = js ''ping''"
    by (simp add: trim_def js_def is_space_def)
  have rest: "process_lines (always (None :: unit option)) (js ''message'') [js ''data: hello'']
      = [OnMessage (js ''hello'')]"
    by (simp add: sse_eval)
  show ?thesis
    using h t rest unknown_event_ignored [OF h t, of "always (None :: unit option)" "js ''1''"
        "[js ''data: hello'']" "js ''message''"]
    by simp
qed

text \<open>
  Claim C1. The claim is that the frames dispatched do not depend on where the reads
  cut the bytes. Here the same bytes arrive once cut after the \<^verbatim>\<open>event:\<close> line and
  once in a single read: cut, the data line is dispatched to \<^verbatim>\<open>onMessage\<close>; uncut,
  it is dispatched to \<^verbatim>\<open>onDone\<close>. The buffer is carried from one read to the next,
  \<^verbatim>\<open>currentEvent\<close> is not.
\<close>

theorem chunk_split_changes_dispatch:
  "stream JSON_parse \<lparr>fetch_outcome = always (Response 200 None
       (Some ([js ''event: done\<newline>'', js ''data: x\<newline>''], EndOfStream))),
     abort_in_wait = always False\<rparr>
     = [Fetch, Read, Read, OnMessage (js ''x''), Read]
   \<and> stream JSON_parse \<lparr>fetch_outcome = always (Response 200 None
       (Some ([js ''event: done\<newline>data: x\<newline>''], EndOfStream))),
     abort_in_wait = always False\<rparr>
     = [Fetch, Read, OnDone, Read]"
  by (simp add: sse_eval)

text \<open>
  The lines themselves do not depend on the cuts: the buffer carries an unfinished line
  over to the next read, and the lines handed to the line loop over all the reads are
  the complete lines of the whole body.
\<close>

lemma split_from_nonempty: "split_from sep piece s \<noteq> []"
  by (induction s arbitrary: piece) simp_all

lemma split_from_append:
  "split_from sep piece (a @ b)
     = butlast (split_from sep piece a) @ split_from sep (last (split_from sep piece a)) b"
  by (induction a arbitrary: piece) (simp_all add: split_from_nonempty)

lemma split_from_last_piece:
  "sep \<notin> set piece \<Longrightarrow> sep \<notin> set (last (split_from sep piece s))"
  by (induction s arbitrary: piece) (simp_all add: split_from_nonempty)

lemma split_from_piece:
  "sep \<notin> set l \<Longrightarrow> split_from sep piece (l @ s) = split_from sep (piece @ l) s"
  by (induction l arbitrary: piece) simp_all

lemma split_nl_append:
  "split_nl (a @ b) = butlast (split_nl a) @ split_nl (last (split_nl a) @ b)"
proof -
  have "0x0A \<notin> set (last (split_from 0x0A [] a))"
    by (rule split_from_last_piece) simp
  then have "split_from 0x0A [] (last (split_from 0x0A [] a) @ b)
      = split_from 0x0A (last (split_from 0x0A [] a)) b"
    using split_from_piece [of "0x0A" "last (split_from 0x0A [] a)" "[]" b] by simp
  then show ?thesis
    by (simp add: split_nl_def split_on_def split_from_append [of _ _ a b])
qed

lemma lines_of_reads_from_buffer:
  "chunks \<noteq> [] \<Longrightarrow> lines_of_reads buffer chunks = butlast (split_nl (buffer @ concat chunks))"
proof (induction chunks arbitrary: buffer)
  case Nil
  then show ?case by simp
next
  case (Cons val vals)
  have ne: "split_nl s \<noteq> []" for s
    by (simp add: split_nl_def split_on_def split_from_nonempty)
  show ?case
  proof (cases "vals = []")
    case True
    then show ?thesis by simp
  next
    case False
    then have "lines_of_reads (last (split_nl (buffer @ val))) vals
        = butlast (split_nl (last (split_nl (buffer @ val)) @ concat vals))"
      by (rule Cons.IH)
    then show ?thesis
      using split_nl_append [of "buffer @ val" "concat vals"] ne
      by (simp add: butlast_append)
  qed
qed

lemma lines_of_reads_whole: "lines_of_reads [] chunks = butlast (split_nl (concat chunks))"
proof (cases "chunks = []")
  case True
  then show ?thesis
    by (simp add: split_nl_def split_on_def)
next
  case False
  then show ?thesis
    using lines_of_reads_from_buffer [of chunks "[]"] by simp
qed

text \<open>
  Claim C3, counterexample. After \<^verbatim>\<open>onDone\<close> the client dispatches the next data line
  of the same read, reads again, dispatches a data line of the second read and reads
  to the end of the body.
\<close>

theorem reads_and_handlers_after_done:
  "after_terminal (stream (always (None :: unit option))
     \<lparr>fetch_outcome = always (Response 200 None
       (Some ([js ''event: done\<newline>data: \<newline>data: late\<newline>'', js ''data: later\<newline>''],
          EndOfStream))),
     abort_in_wait = always False\<rparr>)
   = [OnMessage (js ''late''), Read, OnMessage (js ''later''), Read]"
  by (simp add: sse_eval)

text \<open>
  A frame inside the lines of one read, and the trace of a call whose first attempt gets
  a response with a body that ends.
\<close>

lemma process_lines_frame:
  "process_lines JSON_parse currentEvent
      (pre @ (js ''event: '' @ name) # (js ''data: '' @ d) # post)
     = process_lines JSON_parse currentEvent pre @ handleEvent JSON_parse (trim name) d
         @ process_lines JSON_parse (js ''message'') post"
proof (induction pre arbitrary: currentEvent)
  case Nil
  show ?case
    unfolding append_Nil process_event_then_data by simp
next
  case (Cons line pre)
  show ?case
    by (simp add: Cons.IH)
qed

lemma read_loop_effects:
  "fst (read_loop JSON_parse buffer chunks e) = effects_of_reads JSON_parse buffer chunks @ [Read]"
  by (induction chunks arbitrary: buffer) (simp_all add: Let_def)

lemma effects_of_reads_append:
  "effects_of_reads JSON_parse buffer (first @ later)
     = effects_of_reads JSON_parse buffer first
         @ effects_of_reads JSON_parse (buffer_after buffer first) later"
  by (induction first arbitrary: buffer) simp_all

lemma read_loop_end_of_stream:
  "snd (read_loop JSON_parse buffer chunks EndOfStream) = Returns"
  by (induction chunks arbitrary: buffer) (simp_all add: Let_def)

lemma stream_reads_whole_body:
  assumes "fetch_outcome E 0 = Response status text (Some (chunks, EndOfStream))"
    and "200 \<le> status" "status \<le> 299"
  shows "stream JSON_parse E = Fetch # effects_of_reads JSON_parse [] chunks @ [Read]"
  using assms
  by (simp add: stream_def stream_loop.simps [of _ _ 0] try_block_def Let_def
      read_loop_end_of_stream read_loop_effects split: prod.split)

text \<open>
  Claim C3, as amended. Take a response with a status from 200 to 299 whose body ends,
  and a read of it that completes an \<^verbatim>\<open>event:\<close> line naming \<^verbatim>\<open>done\<close> or
  \<^verbatim>\<open>error\<close> directly followed by its \<^verbatim>\<open>data:\<close> line. Then \<^verbatim>\<open>stream\<close> calls
  \<^verbatim>\<open>onDone\<close>, or \<^verbatim>\<open>onError\<close> with the payload, once for this frame, after what the
  earlier reads and the earlier lines of this read bring; it then handles the lines
  that follow in this read as at the start of a read, goes on with the later reads and
  ends with the read that finds the end of the body: one read for each chunk and one
  more.
\<close>

theorem terminal_frames_do_not_stop_the_stream:
  assumes response: "fetch_outcome E 0
      = Response status text (Some (first @ val # vals, EndOfStream))"
    and ok: "200 \<le> status" "status \<le> 299"
    and frame: "butlast (split_nl (buffer_after [] first @ val))
      = pre @ (js ''event: '' @ name) # (js ''data: '' @ d) # post"
    and terminal: "trim name = js ''done'' \<or> trim name = js ''error''"
  shows "stream JSON_parse E
      = Fetch # effects_of_reads JSON_parse [] first
        @ Read # process_lines JSON_parse (js ''message'') pre
        @ (if trim name = js ''done'' then OnDone else OnError d)
        # process_lines JSON_parse (js ''message'') post
        @ effects_of_reads JSON_parse (last (split_nl (buffer_after [] first @ val))) vals
        @ [Read]
    \<and> length (filter ((=) Read) (stream JSON_parse E)) = length (first @ val # vals) + 1"
proof -
  have call: "handleEvent JSON_parse (trim name) d
      = [if trim name = js ''done'' then OnDone else OnError d]"
    using terminal by (auto simp: handleEvent_def js_def)
  have whole: "stream JSON_parse E
      = Fetch # effects_of_reads JSON_parse [] (first @ val # vals) @ [Read]"
    using response ok by (rule stream_reads_whole_body)
  have this_read: "effects_of_reads JSON_parse (buffer_after [] first) (val # vals)
      = Read # process_lines JSON_parse (js ''message'') pre
        @ (if trim name = js ''done'' then OnDone else OnError d)
        # process_lines JSON_parse (js ''message'') post
        @ effects_of_reads JSON_parse (last (split_nl (buffer_after [] first @ val))) vals"
    by (simp add: frame process_lines_frame call)
  have reads: "length (filter ((=) Read) (stream JSON_parse E)) = length (first @ val # vals) + 1"
    using read_loop_reads_every_chunk [of JSON_parse "[]" "first @ val # vals" EndOfStream]
    unfolding whole read_loop_effects by simp
  show ?thesis
    using reads unfolding whole effects_of_reads_append this_read by simp
qed

text \<open>
  Claim C3, as amended, witness: an \<^verbatim>\<open>error\<close> frame in the second of three reads, its
  \<^verbatim>\<open>event:\<close> line begun in the first.
\<close>

theorem terminal_frames_do_not_stop_the_stream_witness:
  "stream (always (None :: unit option))
     \<lparr>fetch_outcome = always (Response 200 None
        (Some ([js ''data: a\<newline>eve'', js ''nt: error\<newline>data: boom\<newline>data: b\<newline>'',
                js ''data: c\<newline>''], EndOfStream))),
      abort_in_wait = always False\<rparr>
   = [Fetch, Read, OnMessage (js ''a''), Read, OnError (js ''boom''), OnMessage (js ''b''), Read,
      OnMessage (js ''c''), Read]
   \<and> length (filter ((=) Read) (stream (always (None :: unit option))
     \<lparr>fetch_outcome = always (Response 200 None
        (Some ([js ''data: a\<newline>eve'', js ''nt: error\<newline>data: boom\<newline>data: b\<newline>'',
                js ''data: c\<newline>''], EndOfStream))),
      abort_in_wait = always False\<rparr>)) = 4"
proof -
  let ?E = "\<lparr>fetch_outcome = always (Response 200 None
        (Some ([js ''data: a\<newline>eve'', js ''nt: error\<newline>data: boom\<newline>data: b\<newline>'',
                js ''data: c\<newline>''], EndOfStream))),
      abort_in_wait = always False\<rparr>"
  have response: "fetch_outcome ?E 0 = Response 200 None
      (Some ([js ''data: a\<newline>eve''] @ js ''nt: error\<newline>data: boom\<newline>data: b\<newline>''
         # [js ''data: c\<newline>''], EndOfStream))"
    by (simp add: always_def)
  have buffer: "buffer_after [] [js ''data: a\<newline>eve''] = js ''eve''"
    by (simp add: split_nl_def split_on_def js_def)
  have frame: "butlast (split_nl (buffer_after [] [js ''data: a\<newline>eve'']
        @ js ''nt: error\<newline>data: boom\<newline>data: b\<newline>''))
      = [] @ (js ''event: '' @ js ''error'') # (js ''data: '' @ js ''boom'') # [js ''data: b'']"
    unfolding buffer by (simp add: split_nl_def split_on_def js_def)
  have terminal: "trim (js ''error'') = js ''done'' \<or> trim (js ''error'') = js ''error''"
    by (simp add: trim_def js_def is_space_def)
  have ok: "(200::nat) \<le> 200" "(200::nat) \<le> 299"
    by simp_all
  note amended = terminal_frames_do_not_stop_the_stream [OF response ok frame terminal,
      of "always (None :: unit option)"]
  have reads: "length (filter ((=) Read) (stream (always (None :: unit option)) ?E)) = 4"
    using amended [THEN conjunct2] by simp
  have trace: "stream (always (None :: unit option)) ?E
      = [Fetch, Read, OnMessage (js ''a''), Read, OnError (js ''boom''), OnMessage (js ''b''),
         Read, OnMessage (js ''c''), Read]"
    by (simp add: sse_eval)
  show ?thesis
    using trace reads by (rule conjI)
qed

subsection \<open>Attempts and waits\<close>

lemma stream_loop_retry_step:
  assumes "attempt < maxRetries" "fetch_outcome E attempt = FetchFails"
    "\<not> abort_in_wait E attempt"
  shows "stream_loop JSON_parse E attempt (Some False)
    = Fetch # Sleep (2 ^ attempt * 1000) # stream_loop JSON_parse E (Suc attempt) (Some False)"
  using assms by (subst stream_loop.simps) (simp add: try_block_def)

lemma stream_loop_last_attempt:
  assumes "fetch_outcome E maxRetries = FetchFails"
  shows "stream_loop JSON_parse E maxRetries (Some False) = [Fetch, OnError network_error_text]"
  using assms by (subst stream_loop.simps) (simp add: try_block_def)

text \<open>
  Claim C6. When the four connection attempts fail at the transport and \<^verbatim>\<open>abort()\<close>
  is not called during the waits, \<^verbatim>\<open>stream\<close> opens the request four times, waits
  1000, 2000 and 4000 milliseconds between the attempts, and calls \<^verbatim>\<open>onError\<close> once,
  with the connectivity text, after the last one.
\<close>

theorem stream_retries_three_times:
  assumes fails: "\<forall>i\<le>3. fetch_outcome E i = FetchFails"
    and no_abort: "\<forall>i<3. \<not> abort_in_wait E i"
  shows "stream JSON_parse E =
    [Fetch, Sleep 1000, Fetch, Sleep 2000, Fetch, Sleep 4000, Fetch, OnError network_error_text]"
proof -
  have three: "maxRetries = Suc (Suc (Suc 0))"
    by (simp add: maxRetries_def)
  have f: "fetch_outcome E 0 = FetchFails" "fetch_outcome E (Suc 0) = FetchFails"
    "fetch_outcome E (Suc (Suc 0)) = FetchFails" "fetch_outcome E maxRetries = FetchFails"
    using fails by (simp_all add: maxRetries_def)
  have a: "\<not> abort_in_wait E 0" "\<not> abort_in_wait E (Suc 0)" "\<not> abort_in_wait E (Suc (Suc 0))"
    using no_abort by simp_all
  have "stream JSON_parse E = stream_loop JSON_parse E 0 (Some False)"
    by (simp add: stream_def)
  also have "\<dots> = Fetch # Sleep 1000 # stream_loop JSON_parse E (Suc 0) (Some False)"
    using stream_loop_retry_step [of 0 E JSON_parse] f a by (simp add: three)
  also have "stream_loop JSON_parse E (Suc 0) (Some False)
      = Fetch # Sleep 2000 # stream_loop JSON_parse E (Suc (Suc 0)) (Some False)"
    using stream_loop_retry_step [of "Suc 0" E JSON_parse] f a by (simp add: three)
  also have "stream_loop JSON_parse E (Suc (Suc 0)) (Some False)
      = Fetch # Sleep 4000 # stream_loop JSON_parse E maxRetries (Some False)"
    using stream_loop_retry_step [of "Suc (Suc 0)" E JSON_parse] f a by (simp add: three)
  also have "stream_loop JSON_parse E maxRetries (Some False) = [Fetch, OnError network_error_text]"
    using f(4) by (rule stream_loop_last_attempt)
  finally show ?thesis .
qed

text \<open>
  Claim C6, witness: the environment in which every attempt fails and nobody aborts.
\<close>

theorem stream_retries_three_times_witness:
  "list_all (\<lambda>i. fetch_outcome \<lparr>fetch_outcome = always FetchFails, abort_in_wait = always False\<rparr> i
        = FetchFails) [0, 1, 2, 3]
   \<and> list_all (\<lambda>i. \<not> abort_in_wait \<lparr>fetch_outcome = always FetchFails, abort_in_wait = always False\<rparr> i)
        [0, 1, 2]
   \<and> stream (always (None :: unit option))
        \<lparr>fetch_outcome = always FetchFails, abort_in_wait = always False\<rparr>
     = [Fetch, Sleep 1000, Fetch, Sleep 2000, Fetch, Sleep 4000, Fetch, OnError network_error_text]"
proof -
  have fails: "\<forall>i\<le>3. fetch_outcome \<lparr>fetch_outcome = always FetchFails,
      abort_in_wait = always False\<rparr> i = FetchFails"
    by (simp add: always_def)
  have no_abort: "\<forall>i<3. \<not> abort_in_wait \<lparr>fetch_outcome = always FetchFails,
      abort_in_wait = always False\<rparr> i"
    by (simp add: always_def)
  show ?thesis
    using stream_retries_three_times [OF fails no_abort, of "always (None :: unit option)"]
    by (simp add: always_def)
qed

text \<open>
  Claim C7. The claim is that a cancellation never leads to \<^verbatim>\<open>onError\<close>. Here the
  first attempt fails at the transport and \<^verbatim>\<open>abort()\<close> is called during the first
  wait. \<^verbatim>\<open>abort()\<close> sets the field \<^verbatim>\<open>abortController\<close> to \<^verbatim>\<open>null\<close>, so the check
  \<^verbatim>\<open>this.abortController.signal.aborted\<close> at the top of the next attempts throws
  inside the \<^verbatim>\<open>try\<close>; the \<^verbatim>\<open>catch\<close> takes it for a failure to retry, waits twice
  more and calls \<^verbatim>\<open>onError\<close>.
\<close>

theorem abort_in_wait_reaches_onError:
  "stream JSON_parse \<lparr>fetch_outcome = always FetchFails, abort_in_wait = (=) 0\<rparr>
     = [Fetch, Sleep 1000, Sleep 2000, Sleep 4000, OnError network_error_text]"
  by (simp add: sse_eval)

text \<open>
  The cancellations that the client does observe: \<^verbatim>\<open>abort()\<close> while the request is
  pending or while a read is pending ends the call with no handler called for it.
\<close>

lemma abort_during_fetch_returns:
  assumes "fetch_outcome E 0 = FetchAborted"
  shows "stream JSON_parse E = [Fetch]"
  using assms by (simp add: stream_def stream_loop.simps [of _ _ 0] try_block_def)

lemma read_loop_aborted: "snd (read_loop JSON_parse buffer chunks ReadAborted) = Throws AbortError"
  by (induction chunks arbitrary: buffer) (simp_all add: Let_def)

lemma abort_during_read_returns:
  assumes "fetch_outcome E 0 = Response status text (Some (chunks, ReadAborted))"
    and "200 \<le> status" "status \<le> 299"
  shows "stream JSON_parse E = Fetch # fst (read_loop JSON_parse [] chunks ReadAborted)"
  using assms
  by (simp add: stream_def stream_loop.simps [of _ _ 0] try_block_def Let_def read_loop_aborted
      split: prod.split)

section \<open>Properties of the controller\<close>

lemmas ui_defs = setInputDisabled_def addMessage_def startStreaming_def endStreaming_def
  appendToLastAssistant_def addChartToLastAssistant_def showError_def

lemma handleStreamError_keeps:
  "lastFailedMessage (handleStreamError err s) = lastFailedMessage s"
  "config (handleStreamError err s) = config s"
  by (simp_all add: handleStreamError_def)

lemma onError_keeps:
  "lastFailedMessage (onError text err s) = Some text"
  "config (onError text err s) = config s"
  by (simp_all add: onError_def handleStreamError_keeps)

lemma handleSend_submit_call:
  "snd (handleSend_submit text s) =
     \<lparr>call_url = replace_first trailing_slash_re (\<lambda>m. []) (apiUrl (config s))
        @ js ''/api/chat/stream'',
      call_body = buildChatRequest (config s) text, call_token = token (config s)\<rparr>"
  by (simp add: handleSend_submit_def Let_def)

lemma handleSend_submit_state:
  "lastFailedMessage (fst (handleSend_submit text s)) = None"
  "error (fst (handleSend_submit text s)) = None"
  "messages (fst (handleSend_submit text s))
     = messages s @ [\<lparr>msg_id = js ''msg-'' @ show_nat (messageCounter s + 1), role = User,
                       content = text\<rparr>]"
  by (simp_all add: handleSend_submit_def Let_def)

text \<open>
  Claim C8. For the text of a turn, as the view passes it on: when the turn fails, the
  controller retains this text; the retry submits it through \<^verbatim>\<open>handleSend\<close> again,
  with the call of the streaming client that a submission of this text makes (same
  address, same body with this message, same token), and leaves no retained text; a
  fresh submission clears the retained text too.
\<close>

theorem retry_resends_failed_text:
  assumes "ChatUI_handleSend input = Some text"
  shows "lastFailedMessage (onError text err s) = Some text
    \<and> handleRetry (onError text err s)
        = (let r = handleSend_submit text
                     ((onError text err s)\<lparr>error := None, lastFailedMessage := None\<rparr>)
           in (fst r, Some (snd r)))
    \<and> snd (handleRetry (onError text err s)) = Some (snd (handleSend_submit text s))
    \<and> req_message (call_body (snd (handleSend_submit text s))) = text
    \<and> lastFailedMessage (fst (handleRetry (onError text err s))) = None
    \<and> lastFailedMessage (fst (handleSend_submit text s)) = None"
proof -
  have "text \<noteq> []"
    using assms by (auto simp: ChatUI_handleSend_def Let_def split: if_splits)
  then show ?thesis
    by (simp add: handleRetry_def onError_keeps handleSend_submit_call handleSend_submit_state
        buildChatRequest_def Let_def)
qed

text \<open>
  Claim C8, witness: a turn \<^verbatim>\<open>hi\<close> that failed with a server error.
\<close>

theorem retry_resends_failed_text_witness:
  "ChatUI_handleSend (js '' hi '') = Some (js ''hi'')
   \<and> snd (handleRetry (onError (js ''hi'') (js ''HTTP 500: '')
        (new_chatbot example_config :: chatbot)))
     = Some \<lparr>call_url = js ''https://chat.example/api/chat/stream'',
             call_body = \<lparr>req_message = js ''hi'', req_context_type = js ''badminton'',
                           req_context = None\<rparr>,
             call_token = []\<rparr>
   \<and> lastFailedMessage (fst (handleRetry (onError (js ''hi'') (js ''HTTP 500: '')
        (new_chatbot example_config :: chatbot)))) = None"
proof -
  have h: "ChatUI_handleSend (js '' hi '') = Some (js ''hi'')"
    by (simp add: ChatUI_handleSend_def trim_def js_def is_space_def)
  have url: "replace_first trailing_slash_re (\<lambda>m. []) (js ''https://chat.example/'')
      = js ''https://chat.example''"
    by (simp add: replace_first_def trailing_slash_re_def exec_at_def lit_def js_def)
  have call: "snd (handleSend_submit (js ''hi'') (new_chatbot example_config :: chatbot))
      = \<lparr>call_url = js ''https://chat.example/api/chat/stream'',
         call_body = \<lparr>req_message = js ''hi'', req_context_type = js ''badminton'',
                       req_context = None\<rparr>,
         call_token = []\<rparr>"
    unfolding handleSend_submit_call
    by (simp add: new_chatbot_def example_config_def default_config_def url buildChatRequest_def)
       (simp add: js_def)
  note retry = retry_resends_failed_text [OF h, of "js ''HTTP 500: ''"
      "new_chatbot example_config :: chatbot"]
  have sent: "snd (handleRetry (onError (js ''hi'') (js ''HTTP 500: '')
        (new_chatbot example_config :: chatbot)))
      = Some (snd (handleSend_submit (js ''hi'') (new_chatbot example_config :: chatbot)))"
    using retry by blast
  have cleared: "lastFailedMessage (fst (handleRetry (onError (js ''hi'') (js ''HTTP 500: '')
        (new_chatbot example_config :: chatbot)))) = None"
    using retry by blast
  show ?thesis
    using h sent [unfolded call] cleared by blast
qed

text \<open>
  Claim C4, counterexample. A turn whose request is answered with status 410: the
  controller shows the session text, without a retry button, and asks for no session.
\<close>

theorem stream_410_shows_error:
  "shownErrors (ui (handleSend (always (None :: unit option))
      \<lparr>fetch_outcome = always (Response 410 (Some (js ''Gone'')) None),
       abort_in_wait = always False\<rparr> (js ''hi'') (new_chatbot example_config :: chatbot)))
   = [(session_expired_text, False)]"
proof -
  have trace: "stream (always (None :: unit option))
      \<lparr>fetch_outcome = always (Response 410 (Some (js ''Gone'')) None),
       abort_in_wait = always False\<rparr> = [Fetch, OnError (js ''HTTP 410: Gone'')]"
    by (simp add: sse_eval)
  have kind: "\<not> js_includes (js ''HTTP 410: Gone'') (js ''401'')"
    "js_includes (js ''HTTP 410: Gone'') (js ''410'')"
    by (simp_all add: js_def startsWith_def)
  show ?thesis
    unfolding handleSend_def trace
    by (simp add: onError_def handleStreamError_def kind handleSend_submit_def Let_def
        new_chatbot_def ui_defs)
qed

text \<open>
  Claim C4, as amended. When the creation of a session fails with status 410, the
  controller asks for a session again and does nothing else: no error is shown for it,
  and what follows is what the later answers bring. When a turn fails with a
  description that holds \<^verbatim>\<open>410\<close> and not \<^verbatim>\<open>401\<close>, the controller shows the session
  text without a retry button and asks for no session.
\<close>

theorem session_expiry_handling:
  assumes "js_includes err (js ''410'')" "\<not> js_includes err (js ''401'')"
  shows "initSession (Rejected (ApiError 410 detail) # later) s
      = (fst (initSession later s),
         \<lparr>cs_context_type = contextType (config s), cs_context = contextParams (config s)\<rparr>
           # snd (initSession later s))
    \<and> initSession (Rejected (ApiError 410 detail) # Created session_id # later) s
      = (s\<lparr>sessionId := Some session_id\<rparr>,
         [\<lparr>cs_context_type = contextType (config s), cs_context = contextParams (config s)\<rparr>,
          \<lparr>cs_context_type = contextType (config s), cs_context = contextParams (config s)\<rparr>])
    \<and> handleStreamError err s
      = s\<lparr>error := Some session_expired_text,
          ui := showError session_expired_text False (ui s)\<rparr>"
proof -
  have again: "handleApiError (ApiError 410 detail) outcomes s = initSession outcomes s"
    for outcomes
    by (subst handleApiError.simps) simp
  have first: "initSession (Rejected (ApiError 410 detail) # outcomes) s
      = (fst (initSession outcomes s),
         \<lparr>cs_context_type = contextType (config s), cs_context = contextParams (config s)\<rparr>
           # snd (initSession outcomes s))" for outcomes
    by (subst initSession.simps) (simp add: Let_def again)
  have created: "initSession (Created session_id # later) s
      = (s\<lparr>sessionId := Some session_id\<rparr>,
         [\<lparr>cs_context_type = contextType (config s), cs_context = contextParams (config s)\<rparr>])"
    by (subst initSession.simps) (simp add: Let_def)
  show ?thesis
    using assms by (simp add: first created handleStreamError_def)
qed

text \<open>
  Claim C4, witness: the description that the streaming client gives for status 410.
\<close>

theorem session_expiry_handling_witness:
  "js_includes (js ''HTTP 410: '') (js ''410'') \<and> \<not> js_includes (js ''HTTP 410: '') (js ''401'')
   \<and> shownErrors (ui (handleStreamError (js ''HTTP 410: '')
        (new_chatbot example_config :: chatbot))) = [(session_expired_text, False)]
   \<and> shownErrors (ui (fst (initSession [Rejected (ApiError 410 []), Created (js ''s1'')]
        (new_chatbot example_config :: chatbot)))) = []"
proof -
  have h: "js_includes (js ''HTTP 410: '') (js ''410'')"
    "\<not> js_includes (js ''HTTP 410: '') (js ''401'')"
    by (simp_all add: js_def startsWith_def)
  show ?thesis
    using h session_expiry_handling [OF h, of "[]" "[]" "new_chatbot example_config :: chatbot"
        "js ''s1''"]
    by (simp add: new_chatbot_def showError_def)
qed

text \<open>
  Claim C5. The claim is that a 403 failure locks the input and offers no retry,
  whichever call it comes from. Here a turn is answered with status 403: the
  controller shows the general stream text with a retry button and leaves the input
  enabled. \<^verbatim>\<open>handleStreamError\<close> has a case for 401 and one for 410 and none for 403.
\<close>

theorem stream_403_offers_retry:
  "shownErrors (ui (handleSend JSON_parse
      \<lparr>fetch_outcome = always (Response 403 (Some (js ''Forbidden'')) None),
       abort_in_wait = always False\<rparr> (js ''hi'') (new_chatbot cfg)))
     = [(stream_error_text, True)]
   \<and> inputDisabled (ui (handleSend JSON_parse
      \<lparr>fetch_outcome = always (Response 403 (Some (js ''Forbidden'')) None),
       abort_in_wait = always False\<rparr> (js ''hi'') (new_chatbot cfg))) = False"
proof -
  have trace: "stream JSON_parse
      \<lparr>fetch_outcome = always (Response 403 (Some (js ''Forbidden'')) None),
       abort_in_wait = always False\<rparr> = [Fetch, OnError (js ''HTTP 403: Forbidden'')]"
    by (simp add: sse_eval)
  have kind: "\<not> js_includes (js ''HTTP 403: Forbidden'') (js ''401'')"
    "\<not> js_includes (js ''HTTP 403: Forbidden'') (js ''410'')"
    by (simp_all add: js_def startsWith_def)
  show ?thesis
    unfolding handleSend_def trace
    by (simp add: onError_def handleStreamError_def kind handleSend_submit_def Let_def
        new_chatbot_def ui_defs)
qed

text \<open>The sibling path: a session creation that fails with status 403.\<close>

lemma create_session_403_locks_input:
  "handleApiError (ApiError 403 detail) later s
     = (s\<lparr>error := Some forbidden_text,
          ui := setInputDisabled True (showError forbidden_text False (ui s))\<rparr>, [])"
  by (subst handleApiError.simps) simp

section \<open>Properties of the markdown renderer\<close>

lemmas pass_defs = replace_all_def replace_first_def re_test_def exec_at_def lit_def lit_i_def
  Plus_def PlusLazy_def is_space_def is_word_def is_alnum_def is_alpha_def is_digit_def
  is_dot_def is_any_def is_line_terminator_def is_quote_def to_lower_def replace_from.simps
  code_block_re_def inline_code_re_def header_re_def
  bold_re_def italic_re_def tableRegex_def separator_re_def ul_re_def ol_re_def
  ul_marker_re_def ol_marker_re_def blank_lines_re_def newline_re_def tag_re_def
  on_attr_re_def javascript_re_def js_def

text \<open>
  The passes of \<^verbatim>\<open>parse\<close> and \<^verbatim>\<open>sanitize\<close> on two inputs, one pass at a time.
\<close>

lemma handler_parse: "parse (js ''<p onclick=alert(1)>x</p>'') = js ''<p onclick=alert(1)>x</p>''"
proof -
  have p0: "replace_all code_block_re (\<lambda>m. js ''<pre><code>'' @ escapeHtml (trim (group m 2)) @ js ''</code></pre>'') (js ''<p onclick=alert(1)>x</p>'') = js ''<p onclick=alert(1)>x</p>''"
    by (simp add: pass_defs)
  have p1: "replace_all inline_code_re (\<lambda>m. js ''<code>'' @ escapeHtml (group m 1) @ js ''</code>'') (js ''<p onclick=alert(1)>x</p>'') = js ''<p onclick=alert(1)>x</p>''"
    by (simp add: pass_defs)
  have p2: "replace_all (header_re ''####'') (\<lambda>m. js ''<h4>'' @ group m 1 @ js ''</h4>'') (js ''<p onclick=alert(1)>x</p>'') = js ''<p onclick=alert(1)>x</p>''"
    by (simp add: pass_defs)
  have p3: "replace_all (header_re ''###'') (\<lambda>m. js ''<h3>'' @ group m 1 @ js ''</h3>'') (js ''<p onclick=alert(1)>x</p>'') = js ''<p onclick=alert(1)>x</p>''"
    by (simp add: pass_defs)
  have p4: "replace_all (header_re ''##'') (\<lambda>m. js ''<h2>'' @ group m 1 @ js ''</h2>'') (js ''<p onclick=alert(1)>x</p>'') = js ''<p onclick=alert(1)>x</p>''"
    by (simp add: pass_defs)
  have p5: "replace_all (header_re ''#'') (\<lambda>m. js ''<h1>'' @ group m 1 @ js ''</h1>'') (js ''<p onclick=alert(1)>x</p>'') = js ''<p onclick=alert(1)>x</p>''"
    by (simp add: pass_defs)
  have p6: "replace_all bold_re (\<lambda>m. js ''<strong>'' @ group m 1 @ js ''</strong>'') (js ''<p onclick=alert(1)>x</p>'') = js ''<p onclick=alert(1)>x</p>''"
    by (simp add: pass_defs)
  have p7: "replace_all italic_re (\<lambda>m. js ''<em>'' @ group m 1 @ js ''</em>'') (js ''<p onclick=alert(1)>x</p>'') = js ''<p onclick=alert(1)>x</p>''"
    by (simp add: pass_defs)
  have t: "parseTables (js ''<p onclick=alert(1)>x</p>'') = js ''<p onclick=alert(1)>x</p>''"
    by (simp add: parseTables_def pass_defs)
  have l: "parseLists (js ''<p onclick=alert(1)>x</p>'') = js ''<p onclick=alert(1)>x</p>''"
    by (simp add: parseLists_def pass_defs)
  have b: "replace_all blank_lines_re (\<lambda>m. js ''</p><p>'') (js ''<p onclick=alert(1)>x</p>'') = js ''<p onclick=alert(1)>x</p>''"
    by (simp add: pass_defs)
  have n: "replace_all newline_re (\<lambda>m. js ''<br>'') (js ''<p onclick=alert(1)>x</p>'') = js ''<p onclick=alert(1)>x</p>''"
    by (simp add: pass_defs)
  have w: "(if \<not> startsWith (js ''<p onclick=alert(1)>x</p>'') (js ''<'') then js ''<p>'' @ js ''<p onclick=alert(1)>x</p>'' @ js ''</p>'' else js ''<p onclick=alert(1)>x</p>'') = js ''<p onclick=alert(1)>x</p>''"
    by (simp add: startsWith_def js_def)
  show ?thesis
    unfolding parse_def Let_def p0 p1 p2 p3 p4 p5 p6 p7 t l b n by (rule w)
qed

lemma handler_sanitize: "sanitize (js ''<p onclick=alert(1)>x</p>'') = js ''<p onclick=alert(1)>x</p>''"
proof -
  have s1: "replace_all tag_re (\<lambda>m. if map to_lower (group m 1) \<in> set ALLOWED_TAGS then matched m else []) (js ''<p onclick=alert(1)>x</p>'') = js ''<p onclick=alert(1)>x</p>''"
    by (simp add: pass_defs ALLOWED_TAGS_def)
  have s2: "replace_all on_attr_re (\<lambda>m. []) (js ''<p onclick=alert(1)>x</p>'') = js ''<p onclick=alert(1)>x</p>''"
    by (simp add: pass_defs)
  have s3: "replace_all javascript_re (\<lambda>m. []) (js ''<p onclick=alert(1)>x</p>'') = js ''<p onclick=alert(1)>x</p>''"
    by (simp add: pass_defs)
  show ?thesis
    unfolding sanitize_def Let_def s1 s2 by (rule s3)
qed
lemma scheme_parse: "parse (js ''javajavascript:script:'') = js ''<p>javajavascript:script:</p>''"
proof -
  have p0: "replace_all code_block_re (\<lambda>m. js ''<pre><code>'' @ escapeHtml (trim (group m 2)) @ js ''</code></pre>'') (js ''javajavascript:script:'') = js ''javajavascript:script:''"
    by (simp add: pass_defs)
  have p1: "replace_all inline_code_re (\<lambda>m. js ''<code>'' @ escapeHtml (group m 1) @ js ''</code>'') (js ''javajavascript:script:'') = js ''javajavascript:script:''"
    by (simp add: pass_defs)
  have p2: "replace_all (header_re ''####'') (\<lambda>m. js ''<h4>'' @ group m 1 @ js ''</h4>'') (js ''javajavascript:script:'') = js ''javajavascript:script:''"
    by (simp add: pass_defs)
  have p3: "replace_all (header_re ''###'') (\<lambda>m. js ''<h3>'' @ group m 1 @ js ''</h3>'') (js ''javajavascript:script:'') = js ''javajavascript:script:''"
    by (simp add: pass_defs)
  have p4: "replace_all (header_re ''##'') (\<lambda>m. js ''<h2>'' @ group m 1 @ js ''</h2>'') (js ''javajavascript:script:'') = js ''javajavascript:script:''"
    by (simp add: pass_defs)
  have p5: "replace_all (header_re ''#'') (\<lambda>m. js ''<h1>'' @ group m 1 @ js ''</h1>'') (js ''javajavascript:script:'') = js ''javajavascript:script:''"
    by (simp add: pass_defs)
  have p6: "replace_all bold_re (\<lambda>m. js ''<strong>'' @ group m 1 @ js ''</strong>'') (js ''javajavascript:script:'') = js ''javajavascript:script:''"
    by (simp add: pass_defs)
  have p7: "replace_all italic_re (\<lambda>m. js ''<em>'' @ group m 1 @ js ''</em>'') (js ''javajavascript:script:'') = js ''javajavascript:script:''"
    by (simp add: pass_defs)
  have t: "parseTables (js ''javajavascript:script:'') = js ''javajavascript:script:''"
    by (simp add: parseTables_def pass_defs)
  have l: "parseLists (js ''javajavascript:script:'') = js ''javajavascript:script:''"
    by (simp add: parseLists_def pass_defs)
  have b: "replace_all blank_lines_re (\<lambda>m. js ''</p><p>'') (js ''javajavascript:script:'') = js ''javajavascript:script:''"
    by (simp add: pass_defs)
  have n: "replace_all newline_re (\<lambda>m. js ''<br>'') (js ''javajavascript:script:'') = js ''javajavascript:script:''"
    by (simp add: pass_defs)
  have w: "(if \<not> startsWith (js ''javajavascript:script:'') (js ''<'') then js ''<p>'' @ js ''javajavascript:script:'' @ js ''</p>'' else js ''javajavascript:script:'') = js ''<p>javajavascript:script:</p>''"
    by (simp add: startsWith_def js_def)
  show ?thesis
    unfolding parse_def Let_def p0 p1 p2 p3 p4 p5 p6 p7 t l b n by (rule w)
qed

lemma scheme_sanitize: "sanitize (js ''<p>javajavascript:script:</p>'') = js ''<p>javascript:</p>''"
proof -
  have s1: "replace_all tag_re (\<lambda>m. if map to_lower (group m 1) \<in> set ALLOWED_TAGS then matched m else []) (js ''<p>javajavascript:script:</p>'') = js ''<p>javajavascript:script:</p>''"
    by (simp add: pass_defs ALLOWED_TAGS_def)
  have s2: "replace_all on_attr_re (\<lambda>m. []) (js ''<p>javajavascript:script:</p>'') = js ''<p>javajavascript:script:</p>''"
    by (simp add: pass_defs)
  have s3: "replace_all javascript_re (\<lambda>m. []) (js ''<p>javajavascript:script:</p>'') = js ''<p>javascript:</p>''"
    by (simp add: pass_defs)
  show ?thesis
    unfolding sanitize_def Let_def s1 s2 by (rule s3)
qed

text \<open>
  Claim C2. The claim is that the markup returned by \<^verbatim>\<open>render\<close> never holds an
  inline event handler nor \<^verbatim>\<open>javascript:\<close>. Here \<^verbatim>\<open>render\<close> returns a paragraph
  tag with its \<^verbatim>\<open>onclick\<close> handler as it came in, because the second pass of
  \<^verbatim>\<open>sanitize\<close> only matches a handler whose value is quoted; and it returns
  \<^verbatim>\<open>javascript:\<close> for an input in which the scheme is written around one
  occurrence of itself, because the third pass removes the occurrences it finds in a
  single sweep and does not look at what the removal leaves.
\<close>

theorem sanitizer_keeps_handler_and_scheme:
  "render (js ''<p onclick=alert(1)>x</p>'') = js ''<p onclick=alert(1)>x</p>''
   \<and> render (js ''javajavascript:script:'') = js ''<p>javascript:</p>''"
proof -
  have "js ''<p onclick=alert(1)>x</p>'' \<noteq> []" "js ''javajavascript:script:'' \<noteq> []"
    by (simp_all add: js_def)
  then show ?thesis
    by (simp add: render_def handler_parse handler_sanitize scheme_parse scheme_sanitize)
qed

text \<open>
  Claim C10. \<^verbatim>\<open>render\<close> of the empty string is the empty string: no paragraph and no
  other markup.
\<close>

theorem render_empty: "render [] = []"
  by (simp add: render_def)

end
